theory Spec2Isabelle
  imports Main "HOL-Library.Word"
begin

unbundle bit_operations_syntax

section \<open>The power-save state machine of the RSI 91x driver (rsi\_91x\_ps.c)\<close>

subsection \<open>What the headers declare\<close>

type_synonym u8 = "8 word"
type_synonym u16 = "16 word"

text \<open>
  The file includes rsi\_ps.h and rsi\_mgmt.h, which declare \<open>enum ps_state\<close> and the
  macros \<open>PS_CONFIRM_INDEX\<close>, \<open>SLEEP_REQUEST\<close> and \<open>WAKEUP_REQUEST\<close>. Their values
  are not fixed by rsi\_91x\_ps.c, so they are parameters of the model, together with the
  byte order of the host (the confirmation type is read through a \<open>u16\<close> pointer).
  An \<open>enum ps_state\<close> object is an integer: it can hold a value that is none of the
  four enumerators, which is what the \<open>default\<close> branch of \<open>str_psstate\<close> is for.
  The switch of \<open>rsi_handle_ps_confirm\<close> compares the promoted \<open>u16\<close> with the macro
  values, so these are integers too.
\<close>

record ps_header =
  PS_NONE :: int
  PS_ENABLE_REQ_SENT :: int
  PS_DISABLE_REQ_SENT :: int
  PS_ENABLED :: int
  PS_CONFIRM_INDEX :: nat
  SLEEP_REQUEST :: int
  WAKEUP_REQUEST :: int
  big_endian :: bool

text \<open>
  A C compiler rejects a switch with two equal case labels. The file has two switches:
  one over the four enumerators (\<open>str_psstate\<close>) and one over the two confirmation
  types (\<open>rsi_handle_ps_confirm\<close>). A header the file compiles against therefore
  satisfies \<open>header_ok\<close>.
\<close>

definition header_ok :: "ps_header \<Rightarrow> bool" where
  "header_ok h \<longleftrightarrow>
     distinct [PS_NONE h, PS_DISABLE_REQ_SENT h, PS_ENABLE_REQ_SENT h, PS_ENABLED h] \<and>
     SLEEP_REQUEST h \<noteq> WAKEUP_REQUEST h"

subsection \<open>The adapter, the transport and what the code emits\<close>

text \<open>
  Of \<open>struct rsi_hw\<close> the state machine reads and writes \<open>ps_state\<close> only; \<open>hw\<close> stands
  for every other field.
\<close>

record 'h rsi_hw =
  ps_state :: int
  hw :: 'h

text \<open>
  \<open>ven_rsi_dbg\<close> is a logging macro taking a zone, a format string and the arguments of
  the format. The model keeps the three as they are passed, without formatting them.
  \<open>__func__\<close> is passed as the name of the enclosing function.
\<close>

datatype zone = ERR_ZONE | INFO_ZONE

datatype dbg_arg = Str string | Hex u16

text \<open>
  The observable effects of the file's functions, in the order they happen: a call of
  \<open>rsi_send_ps_request\<close> with its flag, or a call of \<open>ven_rsi_dbg\<close>.
\<close>

datatype event = PS_REQUEST bool | DBG zone string "dbg_arg list"

record 'h world =
  adapter :: "'h rsi_hw"
  trace :: "event list"

text \<open>
  \<open>rsi_send_ps_request(adapter, enable)\<close> is defined in another file of the driver. It
  receives the adapter and returns an \<open>int\<close>, zero on success. The model takes it as a
  parameter: any function from the flag and the adapter to a status and the adapter it
  leaves behind.
\<close>

type_synonym 'h transport = "bool \<Rightarrow> 'h rsi_hw \<Rightarrow> int \<times> 'h rsi_hw"

definition preserves_ps_state :: "'h transport \<Rightarrow> bool" where
  "preserves_ps_state send \<longleftrightarrow>
     (\<forall>enable a. ps_state (snd (send enable a)) = ps_state a)"

definition ven_rsi_dbg :: "zone \<Rightarrow> string \<Rightarrow> dbg_arg list \<Rightarrow> 'h world \<Rightarrow> 'h world" where
  "ven_rsi_dbg z fmt args w = w\<lparr>trace := trace w @ [DBG z fmt args]\<rparr>"

definition rsi_send_ps_request :: "'h transport \<Rightarrow> bool \<Rightarrow> 'h world \<Rightarrow> int \<times> 'h world" where
  "rsi_send_ps_request send enable w =
     (case send enable (adapter w) of
        (status, a) \<Rightarrow> (status, w\<lparr>adapter := a, trace := trace w @ [PS_REQUEST enable]\<rparr>))"

primrec ps_requests :: "event list \<Rightarrow> bool list" where
  "ps_requests [] = []"
| "ps_requests (e # es) =
     (case e of PS_REQUEST enable \<Rightarrow> enable # ps_requests es | DBG z fmt args \<Rightarrow> ps_requests es)"

subsection \<open>The functions of rsi\_91x\_ps.c\<close>

definition str_psstate :: "ps_header \<Rightarrow> int \<Rightarrow> string" where
  "str_psstate h state =
     (if state = PS_NONE h then ''PS_NONE''
      else if state = PS_DISABLE_REQ_SENT h then ''PS_DISABLE_REQ_SENT''
      else if state = PS_ENABLE_REQ_SENT h then ''PS_ENABLE_REQ_SENT''
      else if state = PS_ENABLED h then ''PS_ENABLED''
      else ''INVALID_STATE'')"

definition rsi_modify_ps_state :: "ps_header \<Rightarrow> int \<Rightarrow> 'h world \<Rightarrow> 'h world" where
  "rsi_modify_ps_state h nstate w =
     (let w1 = ven_rsi_dbg INFO_ZONE ''PS state changed %s => %s\<newline>''
                 [Str (str_psstate h (ps_state (adapter w))), Str (str_psstate h nstate)] w
      in w1\<lparr>adapter := (adapter w1)\<lparr>ps_state := nstate\<rparr>\<rparr>)"

definition rsi_enable_ps :: "ps_header \<Rightarrow> 'h transport \<Rightarrow> 'h world \<Rightarrow> 'h world" where
  "rsi_enable_ps h send w =
     (if ps_state (adapter w) \<noteq> PS_NONE h then
        ven_rsi_dbg ERR_ZONE ''%s: Cannot accept enable PS in %s state\<newline>''
          [Str ''rsi_enable_ps'', Str (str_psstate h (ps_state (adapter w)))] w
      else
        (case rsi_send_ps_request send True w of
           (status, w1) \<Rightarrow>
             if status \<noteq> 0 then
               ven_rsi_dbg ERR_ZONE ''%s: Failed to send PS request to device\<newline>''
                 [Str ''rsi_enable_ps''] w1
             else rsi_modify_ps_state h (PS_ENABLE_REQ_SENT h) w1))"

definition rsi_disable_ps :: "ps_header \<Rightarrow> 'h transport \<Rightarrow> 'h world \<Rightarrow> 'h world" where
  "rsi_disable_ps h send w =
     (if ps_state (adapter w) \<noteq> PS_ENABLED h then
        ven_rsi_dbg ERR_ZONE ''%s: Cannot accept disable PS in %s state\<newline>''
          [Str ''rsi_disable_ps'', Str (str_psstate h (ps_state (adapter w)))] w
      else
        (case rsi_send_ps_request send False w of
           (status, w1) \<Rightarrow>
             if status \<noteq> 0 then
               ven_rsi_dbg ERR_ZONE ''%s: Failed to send PS request to device\<newline>''
                 [Str ''rsi_disable_ps''] w1
             else rsi_modify_ps_state h (PS_DISABLE_REQ_SENT h) w1))"

definition rsi_conf_uapsd :: "ps_header \<Rightarrow> 'h transport \<Rightarrow> 'h world \<Rightarrow> 'h world" where
  "rsi_conf_uapsd h send w =
     (if ps_state (adapter w) \<noteq> PS_ENABLED h then w
      else
        (case rsi_send_ps_request send False w of
           (status, w1) \<Rightarrow>
             if status \<noteq> 0 then
               ven_rsi_dbg ERR_ZONE ''%s: Failed to send PS request to device\<newline>''
                 [Str ''rsi_conf_uapsd''] w1
             else
               (case rsi_send_ps_request send True w1 of
                  (status2, w2) \<Rightarrow>
                    if status2 \<noteq> 0 then
                      ven_rsi_dbg ERR_ZONE ''%s: Failed to send PS request to device\<newline>''
                        [Str ''rsi_conf_uapsd''] w2
                    else w2)))"

text \<open>
  \<open>msg\<close> is a pointer to bytes: the model takes the memory it points to as a function
  from the offset to the byte there. \<open>*(u16 *)&msg[i]\<close> reads the bytes at offsets
  \<open>i\<close> and \<open>i + 1\<close> in the byte order of the host.
\<close>

definition load_u16 :: "bool \<Rightarrow> (nat \<Rightarrow> u8) \<Rightarrow> nat \<Rightarrow> u16" where
  "load_u16 be msg i =
     (if be then push_bit 8 (ucast (msg i)) OR ucast (msg (i + 1))
      else push_bit 8 (ucast (msg (i + 1))) OR ucast (msg i))"

definition rsi_handle_ps_confirm :: "ps_header \<Rightarrow> (nat \<Rightarrow> u8) \<Rightarrow> 'h world \<Rightarrow> int \<times> 'h world" where
  "rsi_handle_ps_confirm h msg w =
     (let cfm_type = load_u16 (big_endian h) msg (PS_CONFIRM_INDEX h) in
      if uint cfm_type = SLEEP_REQUEST h then
        (0, if ps_state (adapter w) = PS_ENABLE_REQ_SENT h
            then rsi_modify_ps_state h (PS_ENABLED h) w else w)
      else if uint cfm_type = WAKEUP_REQUEST h then
        (0, if ps_state (adapter w) = PS_DISABLE_REQ_SENT h
            then rsi_modify_ps_state h (PS_NONE h) w else w)
      else
        (- 1, ven_rsi_dbg ERR_ZONE ''Invalid PS confirm type %x in state %s\<newline>''
                [Hex cfm_type, Str (str_psstate h (ps_state (adapter w)))] w))"

subsection \<open>Concrete inputs\<close>

text \<open>
  A header with distinct values, a little-endian host, two transports that leave the
  adapter alone (one that always succeeds and one that always fails with \<open>-1\<close>), a
  world with a given state and an empty trace, and two buffers that carry the bytes
  \<open>lo\<close> and \<open>hi\<close> at the offsets 12 and 13 and differ everywhere else.
\<close>

definition header0 :: ps_header where
  "header0 = \<lparr>PS_NONE = 0, PS_ENABLE_REQ_SENT = 1, PS_DISABLE_REQ_SENT = 2, PS_ENABLED = 3,
     PS_CONFIRM_INDEX = 12, SLEEP_REQUEST = 1, WAKEUP_REQUEST = 2, big_endian = False\<rparr>"

definition send_ok :: "unit transport" where
  "send_ok enable a = (0, a)"

definition send_fail :: "unit transport" where
  "send_fail enable a = (- 1, a)"

definition world0 :: "int \<Rightarrow> unit world" where
  "world0 s = \<lparr>adapter = \<lparr>ps_state = s, hw = ()\<rparr>, trace = []\<rparr>"

definition msg0 :: "u8 \<Rightarrow> u8 \<Rightarrow> nat \<Rightarrow> u8" where
  "msg0 lo hi = (\<lambda>i. if i = 12 then lo else if i = 13 then hi else 0)"

definition msg_ff :: "u8 \<Rightarrow> u8 \<Rightarrow> nat \<Rightarrow> u8" where
  "msg_ff lo hi = (\<lambda>i. if i = 12 then lo else if i = 13 then hi else 255)"

section \<open>Properties\<close>

lemma header0_ok: "header_ok header0"
  by (simp add: header_ok_def header0_def)

lemma ps_state_world0: "ps_state (adapter (world0 s)) = s"
  by (simp add: world0_def)

lemma preserves_send_ok: "preserves_ps_state send_ok"
  by (simp add: preserves_ps_state_def send_ok_def)

lemma preserves_send_fail: "preserves_ps_state send_fail"
  by (simp add: preserves_ps_state_def send_fail_def)

lemma ps_requests_append: "ps_requests (xs @ ys) = ps_requests xs @ ps_requests ys"
  by (induction xs) (simp_all split: event.splits)

lemma str_psstate_enumerators:
  assumes "header_ok h"
  shows "str_psstate h (PS_NONE h) = ''PS_NONE''"
    and "str_psstate h (PS_DISABLE_REQ_SENT h) = ''PS_DISABLE_REQ_SENT''"
    and "str_psstate h (PS_ENABLE_REQ_SENT h) = ''PS_ENABLE_REQ_SENT''"
    and "str_psstate h (PS_ENABLED h) = ''PS_ENABLED''"
  using assms by (auto simp: header_ok_def str_psstate_def)

lemma ps_state_rsi_modify_ps_state:
  "ps_state (adapter (rsi_modify_ps_state h nstate w)) = nstate"
  by (simp add: rsi_modify_ps_state_def Let_def)

lemma ps_requests_rsi_modify_ps_state:
  "ps_requests (trace (rsi_modify_ps_state h nstate w)) = ps_requests (trace w)"
  by (simp add: rsi_modify_ps_state_def Let_def ven_rsi_dbg_def ps_requests_append)

lemma rsi_send_ps_request_eq:
  "rsi_send_ps_request send enable w =
     (fst (send enable (adapter w)),
      w\<lparr>adapter := snd (send enable (adapter w)), trace := trace w @ [PS_REQUEST enable]\<rparr>)"
  by (simp add: rsi_send_ps_request_def split: prod.splits)

subsection \<open>The confirmation handler\<close>

text \<open>
  C1. \<open>rsi_handle_ps_confirm\<close> follows the transition table. With \<open>cfm_type\<close> the 16-bit
  value read from the buffer: a \<open>SLEEP_REQUEST\<close> confirmation in \<open>PS_ENABLE_REQ_SENT\<close>
  returns 0 and leaves the state \<open>PS_ENABLED\<close>; a \<open>WAKEUP_REQUEST\<close> confirmation in
  \<open>PS_DISABLE_REQ_SENT\<close> returns 0 and leaves the state \<open>PS_NONE\<close>; either confirmation
  in any other state returns 0 and leaves the adapter and the trace as they were (the
  state is unchanged and nothing is logged).
\<close>

theorem rsi_handle_ps_confirm_table:
  assumes "header_ok h"
    and "cfm_type = load_u16 (big_endian h) msg (PS_CONFIRM_INDEX h)"
  shows "(uint cfm_type = SLEEP_REQUEST h \<and> ps_state (adapter w) = PS_ENABLE_REQ_SENT h \<longrightarrow>
            fst (rsi_handle_ps_confirm h msg w) = 0 \<and>
            ps_state (adapter (snd (rsi_handle_ps_confirm h msg w))) = PS_ENABLED h) \<and>
         (uint cfm_type = WAKEUP_REQUEST h \<and> ps_state (adapter w) = PS_DISABLE_REQ_SENT h \<longrightarrow>
            fst (rsi_handle_ps_confirm h msg w) = 0 \<and>
            ps_state (adapter (snd (rsi_handle_ps_confirm h msg w))) = PS_NONE h) \<and>
         (uint cfm_type = SLEEP_REQUEST h \<and> ps_state (adapter w) \<noteq> PS_ENABLE_REQ_SENT h \<longrightarrow>
            rsi_handle_ps_confirm h msg w = (0, w)) \<and>
         (uint cfm_type = WAKEUP_REQUEST h \<and> ps_state (adapter w) \<noteq> PS_DISABLE_REQ_SENT h \<longrightarrow>
            rsi_handle_ps_confirm h msg w = (0, w))"
  using assms
  by (simp add: rsi_handle_ps_confirm_def header_ok_def ps_state_rsi_modify_ps_state)

theorem rsi_handle_ps_confirm_table_witness:
  "header_ok header0 \<and>
   fst (rsi_handle_ps_confirm header0 (msg0 1 0) (world0 1)) = 0 \<and>
   ps_state (adapter (snd (rsi_handle_ps_confirm header0 (msg0 1 0) (world0 1)))) = 3 \<and>
   fst (rsi_handle_ps_confirm header0 (msg0 2 0) (world0 2)) = 0 \<and>
   ps_state (adapter (snd (rsi_handle_ps_confirm header0 (msg0 2 0) (world0 2)))) = 0 \<and>
   rsi_handle_ps_confirm header0 (msg0 1 0) (world0 3) = (0, world0 3) \<and>
   rsi_handle_ps_confirm header0 (msg0 2 0) (world0 3) = (0, world0 3)"
proof -
  have sleep: "uint (load_u16 (big_endian header0) (msg0 1 0) (PS_CONFIRM_INDEX header0))
                 = SLEEP_REQUEST header0"
    by (simp add: load_u16_def msg0_def header0_def)
  have wakeup: "uint (load_u16 (big_endian header0) (msg0 2 0) (PS_CONFIRM_INDEX header0))
                 = WAKEUP_REQUEST header0"
    by (simp add: load_u16_def msg0_def header0_def)
  note table = rsi_handle_ps_confirm_table [OF header0_ok refl]
  have "fst (rsi_handle_ps_confirm header0 (msg0 1 0) (world0 1)) = 0 \<and>
     ps_state (adapter (snd (rsi_handle_ps_confirm header0 (msg0 1 0) (world0 1)))) = 3"
    using table [of "msg0 1 0" "world0 1"] sleep
    by (simp add: ps_state_world0 header0_def)
  moreover have "fst (rsi_handle_ps_confirm header0 (msg0 2 0) (world0 2)) = 0 \<and>
     ps_state (adapter (snd (rsi_handle_ps_confirm header0 (msg0 2 0) (world0 2)))) = 0"
    using table [of "msg0 2 0" "world0 2"] wakeup
    by (simp add: ps_state_world0 header0_def)
  moreover have "rsi_handle_ps_confirm header0 (msg0 1 0) (world0 3) = (0, world0 3)"
    using table [of "msg0 1 0" "world0 3"] sleep
    by (simp add: ps_state_world0 header0_def)
  moreover have "rsi_handle_ps_confirm header0 (msg0 2 0) (world0 3) = (0, world0 3)"
    using table [of "msg0 2 0" "world0 3"] wakeup
    by (simp add: ps_state_world0 header0_def)
  ultimately show ?thesis
    using header0_ok by simp
qed

text \<open>
  C4. When the value read from the buffer is neither \<open>SLEEP_REQUEST\<close> nor
  \<open>WAKEUP_REQUEST\<close>, \<open>rsi_handle_ps_confirm\<close> returns \<open>-1\<close> in every state, logs the
  value and the current state in the error zone, and changes nothing else: the adapter,
  and so the state, is as before.
\<close>

theorem rsi_handle_ps_confirm_invalid:
  assumes "cfm_type = load_u16 (big_endian h) msg (PS_CONFIRM_INDEX h)"
    and "uint cfm_type \<noteq> SLEEP_REQUEST h"
    and "uint cfm_type \<noteq> WAKEUP_REQUEST h"
  shows "rsi_handle_ps_confirm h msg w =
           (- 1, w\<lparr>trace := trace w @
                    [DBG ERR_ZONE ''Invalid PS confirm type %x in state %s\<newline>''
                       [Hex cfm_type, Str (str_psstate h (ps_state (adapter w)))]]\<rparr>) \<and>
         ps_state (adapter (snd (rsi_handle_ps_confirm h msg w))) = ps_state (adapter w)"
  using assms by (simp add: rsi_handle_ps_confirm_def ven_rsi_dbg_def)

theorem rsi_handle_ps_confirm_invalid_witness:
  "uint (65535 :: u16) \<noteq> SLEEP_REQUEST header0 \<and>
   uint (65535 :: u16) \<noteq> WAKEUP_REQUEST header0 \<and>
   rsi_handle_ps_confirm header0 (msg0 255 255) (world0 1) =
     (- 1, \<lparr>adapter = \<lparr>ps_state = 1, hw = ()\<rparr>,
            trace = [DBG ERR_ZONE ''Invalid PS confirm type %x in state %s\<newline>''
                       [Hex 65535, Str ''PS_ENABLE_REQ_SENT'']]\<rparr>) \<and>
   ps_state (adapter (snd (rsi_handle_ps_confirm header0 (msg0 255 255) (world0 1)))) = 1"
proof -
  have cfm: "(65535 :: u16) =
      load_u16 (big_endian header0) (msg0 255 255) (PS_CONFIRM_INDEX header0)"
    by (simp add: load_u16_def msg0_def header0_def)
  have ns: "uint (65535 :: u16) \<noteq> SLEEP_REQUEST header0"
    and nw: "uint (65535 :: u16) \<noteq> WAKEUP_REQUEST header0"
    by (simp_all add: header0_def)
  have name: "str_psstate header0 1 = ''PS_ENABLE_REQ_SENT''"
    using str_psstate_enumerators(3) [OF header0_ok] by (simp add: header0_def)
  show ?thesis
    using rsi_handle_ps_confirm_invalid [OF cfm ns nw, of "world0 1"] ns nw name
    by (simp add: world0_def)
qed

text \<open>
  C10. \<open>rsi_handle_ps_confirm\<close> reads the buffer at the offsets \<open>PS_CONFIRM_INDEX\<close> and
  \<open>PS_CONFIRM_INDEX + 1\<close> only, and of the adapter it reads the state only. Two buffers
  that agree on these two bytes, handled from adapters in the same state, give the same
  return value and the same next state; handled from the same world they give the same
  world, trace included.
\<close>

theorem rsi_handle_ps_confirm_two_bytes:
  assumes "msg1 (PS_CONFIRM_INDEX h) = msg2 (PS_CONFIRM_INDEX h)"
    and "msg1 (PS_CONFIRM_INDEX h + 1) = msg2 (PS_CONFIRM_INDEX h + 1)"
    and "ps_state (adapter w1) = ps_state (adapter w2)"
  shows "fst (rsi_handle_ps_confirm h msg1 w1) = fst (rsi_handle_ps_confirm h msg2 w2) \<and>
         ps_state (adapter (snd (rsi_handle_ps_confirm h msg1 w1))) =
           ps_state (adapter (snd (rsi_handle_ps_confirm h msg2 w2))) \<and>
         rsi_handle_ps_confirm h msg1 w1 = rsi_handle_ps_confirm h msg2 w1"
proof -
  have "load_u16 (big_endian h) msg1 (PS_CONFIRM_INDEX h) =
        load_u16 (big_endian h) msg2 (PS_CONFIRM_INDEX h)"
    using assms(1,2) by (simp add: load_u16_def)
  then show ?thesis
    using assms(3)
    by (simp add: rsi_handle_ps_confirm_def Let_def ps_state_rsi_modify_ps_state
        ven_rsi_dbg_def)
qed

theorem rsi_handle_ps_confirm_two_bytes_witness:
  "msg0 1 0 0 \<noteq> msg_ff 1 0 0 \<and>
   world0 1 \<noteq> (world0 1)\<lparr>trace := [PS_REQUEST True]\<rparr> \<and>
   fst (rsi_handle_ps_confirm header0 (msg0 1 0) (world0 1)) =
     fst (rsi_handle_ps_confirm header0 (msg_ff 1 0)
            ((world0 1)\<lparr>trace := [PS_REQUEST True]\<rparr>)) \<and>
   ps_state (adapter (snd (rsi_handle_ps_confirm header0 (msg0 1 0) (world0 1)))) =
     ps_state (adapter (snd (rsi_handle_ps_confirm header0 (msg_ff 1 0)
            ((world0 1)\<lparr>trace := [PS_REQUEST True]\<rparr>)))) \<and>
   rsi_handle_ps_confirm header0 (msg0 1 0) (world0 1) =
     rsi_handle_ps_confirm header0 (msg_ff 1 0) (world0 1)"
proof -
  have b0: "msg0 1 0 (PS_CONFIRM_INDEX header0) = msg_ff 1 0 (PS_CONFIRM_INDEX header0)"
    and b1: "msg0 1 0 (PS_CONFIRM_INDEX header0 + 1) =
      msg_ff 1 0 (PS_CONFIRM_INDEX header0 + 1)"
    by (simp_all add: header0_def msg0_def msg_ff_def)
  have st: "ps_state (adapter (world0 1)) =
      ps_state (adapter ((world0 1)\<lparr>trace := [PS_REQUEST True]\<rparr>))"
    by simp
  have differ: "msg0 1 0 0 \<noteq> msg_ff 1 0 0"
    by (simp add: msg0_def msg_ff_def)
  have worlds: "world0 1 \<noteq> (world0 1)\<lparr>trace := [PS_REQUEST True]\<rparr>"
    by (simp add: world0_def)
  from differ worlds rsi_handle_ps_confirm_two_bytes [OF b0 b1 st]
  show ?thesis by blast
qed

subsection \<open>Enabling and disabling power save\<close>

text \<open>
  C2. \<open>rsi_enable_ps\<close> goes ahead only in the state \<open>PS_NONE\<close>. In any other state it
  logs, in the error zone, that it cannot accept the request, with the name of the
  current state, and changes nothing else: the adapter is as before and no request is
  handed to the transport. In \<open>PS_NONE\<close>, when the transport returns 0, one request with
  the flag set is sent and the state becomes \<open>PS_ENABLE_REQ_SENT\<close>.
\<close>

theorem rsi_enable_ps_guard:
  "(ps_state (adapter w) \<noteq> PS_NONE h \<longrightarrow>
      rsi_enable_ps h send w =
        w\<lparr>trace := trace w @
            [DBG ERR_ZONE ''%s: Cannot accept enable PS in %s state\<newline>''
               [Str ''rsi_enable_ps'', Str (str_psstate h (ps_state (adapter w)))]]\<rparr> \<and>
      ps_state (adapter (rsi_enable_ps h send w)) = ps_state (adapter w) \<and>
      ps_requests (trace (rsi_enable_ps h send w)) = ps_requests (trace w)) \<and>
   (ps_state (adapter w) = PS_NONE h \<and> fst (send True (adapter w)) = 0 \<longrightarrow>
      ps_state (adapter (rsi_enable_ps h send w)) = PS_ENABLE_REQ_SENT h \<and>
      ps_requests (trace (rsi_enable_ps h send w)) = ps_requests (trace w) @ [True])"
  by (simp add: rsi_enable_ps_def rsi_send_ps_request_eq ven_rsi_dbg_def
      ps_requests_append ps_state_rsi_modify_ps_state ps_requests_rsi_modify_ps_state)

theorem rsi_enable_ps_guard_witness:
  "ps_state (adapter (world0 3)) \<noteq> PS_NONE header0 \<and>
   rsi_enable_ps header0 send_ok (world0 3) =
     \<lparr>adapter = \<lparr>ps_state = 3, hw = ()\<rparr>,
      trace = [DBG ERR_ZONE ''%s: Cannot accept enable PS in %s state\<newline>''
                 [Str ''rsi_enable_ps'', Str ''PS_ENABLED'']]\<rparr> \<and>
   ps_state (adapter (world0 0)) = PS_NONE header0 \<and>
   fst (send_ok True (adapter (world0 0))) = 0 \<and>
   ps_state (adapter (rsi_enable_ps header0 send_ok (world0 0))) = 1 \<and>
   ps_requests (trace (rsi_enable_ps header0 send_ok (world0 0))) = [True]"
proof -
  have name: "str_psstate header0 3 = ''PS_ENABLED''"
    using str_psstate_enumerators(4) [OF header0_ok] by (simp add: header0_def)
  have "rsi_enable_ps header0 send_ok (world0 3) =
     \<lparr>adapter = \<lparr>ps_state = 3, hw = ()\<rparr>,
      trace = [DBG ERR_ZONE ''%s: Cannot accept enable PS in %s state\<newline>''
                 [Str ''rsi_enable_ps'', Str ''PS_ENABLED'']]\<rparr>"
    using rsi_enable_ps_guard [of "world0 3" header0 send_ok] name
    by (simp add: world0_def header0_def)
  moreover have "ps_state (adapter (rsi_enable_ps header0 send_ok (world0 0))) = 1 \<and>
     ps_requests (trace (rsi_enable_ps header0 send_ok (world0 0))) = [True]"
    using rsi_enable_ps_guard [of "world0 0" header0 send_ok]
    by (simp add: world0_def header0_def send_ok_def)
  ultimately show ?thesis
    by (simp add: world0_def header0_def send_ok_def)
qed

text \<open>
  C3. \<open>rsi_disable_ps\<close> goes ahead only in the state \<open>PS_ENABLED\<close>. In any other state it
  logs, in the error zone, that it cannot accept the request, with the name of the
  current state, and changes nothing else: the adapter is as before and no request is
  handed to the transport. In \<open>PS_ENABLED\<close>, when the transport returns 0, one request
  with the flag cleared is sent and the state becomes \<open>PS_DISABLE_REQ_SENT\<close>.
\<close>

theorem rsi_disable_ps_guard:
  "(ps_state (adapter w) \<noteq> PS_ENABLED h \<longrightarrow>
      rsi_disable_ps h send w =
        w\<lparr>trace := trace w @
            [DBG ERR_ZONE ''%s: Cannot accept disable PS in %s state\<newline>''
               [Str ''rsi_disable_ps'', Str (str_psstate h (ps_state (adapter w)))]]\<rparr> \<and>
      ps_state (adapter (rsi_disable_ps h send w)) = ps_state (adapter w) \<and>
      ps_requests (trace (rsi_disable_ps h send w)) = ps_requests (trace w)) \<and>
   (ps_state (adapter w) = PS_ENABLED h \<and> fst (send False (adapter w)) = 0 \<longrightarrow>
      ps_state (adapter (rsi_disable_ps h send w)) = PS_DISABLE_REQ_SENT h \<and>
      ps_requests (trace (rsi_disable_ps h send w)) = ps_requests (trace w) @ [False])"
  by (simp add: rsi_disable_ps_def rsi_send_ps_request_eq ven_rsi_dbg_def
      ps_requests_append ps_state_rsi_modify_ps_state ps_requests_rsi_modify_ps_state)

theorem rsi_disable_ps_guard_witness:
  "ps_state (adapter (world0 0)) \<noteq> PS_ENABLED header0 \<and>
   rsi_disable_ps header0 send_ok (world0 0) =
     \<lparr>adapter = \<lparr>ps_state = 0, hw = ()\<rparr>,
      trace = [DBG ERR_ZONE ''%s: Cannot accept disable PS in %s state\<newline>''
                 [Str ''rsi_disable_ps'', Str ''PS_NONE'']]\<rparr> \<and>
   ps_state (adapter (world0 3)) = PS_ENABLED header0 \<and>
   fst (send_ok False (adapter (world0 3))) = 0 \<and>
   ps_state (adapter (rsi_disable_ps header0 send_ok (world0 3))) = 2 \<and>
   ps_requests (trace (rsi_disable_ps header0 send_ok (world0 3))) = [False]"
proof -
  have name: "str_psstate header0 0 = ''PS_NONE''"
    using str_psstate_enumerators(1) [OF header0_ok] by (simp add: header0_def)
  have "rsi_disable_ps header0 send_ok (world0 0) =
     \<lparr>adapter = \<lparr>ps_state = 0, hw = ()\<rparr>,
      trace = [DBG ERR_ZONE ''%s: Cannot accept disable PS in %s state\<newline>''
                 [Str ''rsi_disable_ps'', Str ''PS_NONE'']]\<rparr>"
    using rsi_disable_ps_guard [of "world0 0" header0 send_ok] name
    by (simp add: world0_def header0_def)
  moreover have "ps_state (adapter (rsi_disable_ps header0 send_ok (world0 3))) = 2 \<and>
     ps_requests (trace (rsi_disable_ps header0 send_ok (world0 3))) = [False]"
    using rsi_disable_ps_guard [of "world0 3" header0 send_ok]
    by (simp add: world0_def header0_def send_ok_def)
  ultimately show ?thesis
    by (simp add: world0_def header0_def send_ok_def)
qed

text \<open>
  C5. When the state allows the request but the transport returns a non-zero status,
  \<open>rsi_enable_ps\<close> and \<open>rsi_disable_ps\<close> log the failure in the error zone and return
  without calling \<open>rsi_modify_ps_state\<close>: the adapter is the one the transport left
  behind. With a transport that does not write \<open>ps_state\<close>, the state is the one before
  the call. The log entry is the fixed message of the source; the status itself is not
  part of it.
\<close>

theorem ps_request_failure_keeps_state:
  assumes "preserves_ps_state send"
  shows "(ps_state (adapter w) = PS_NONE h \<and> fst (send True (adapter w)) \<noteq> 0 \<longrightarrow>
            ps_state (adapter (rsi_enable_ps h send w)) = ps_state (adapter w) \<and>
            adapter (rsi_enable_ps h send w) = snd (send True (adapter w)) \<and>
            trace (rsi_enable_ps h send w) =
              trace w @ [PS_REQUEST True,
                DBG ERR_ZONE ''%s: Failed to send PS request to device\<newline>''
                  [Str ''rsi_enable_ps'']]) \<and>
         (ps_state (adapter w) = PS_ENABLED h \<and> fst (send False (adapter w)) \<noteq> 0 \<longrightarrow>
            ps_state (adapter (rsi_disable_ps h send w)) = ps_state (adapter w) \<and>
            adapter (rsi_disable_ps h send w) = snd (send False (adapter w)) \<and>
            trace (rsi_disable_ps h send w) =
              trace w @ [PS_REQUEST False,
                DBG ERR_ZONE ''%s: Failed to send PS request to device\<newline>''
                  [Str ''rsi_disable_ps'']])"
  using assms
  by (simp add: preserves_ps_state_def rsi_enable_ps_def rsi_disable_ps_def
      rsi_send_ps_request_eq ven_rsi_dbg_def)

theorem ps_request_failure_keeps_state_witness:
  "preserves_ps_state send_fail \<and>
   ps_state (adapter (world0 0)) = PS_NONE header0 \<and>
   fst (send_fail True (adapter (world0 0))) \<noteq> 0 \<and>
   rsi_enable_ps header0 send_fail (world0 0) =
     \<lparr>adapter = \<lparr>ps_state = 0, hw = ()\<rparr>,
      trace = [PS_REQUEST True,
               DBG ERR_ZONE ''%s: Failed to send PS request to device\<newline>''
                 [Str ''rsi_enable_ps'']]\<rparr> \<and>
   ps_state (adapter (world0 3)) = PS_ENABLED header0 \<and>
   fst (send_fail False (adapter (world0 3))) \<noteq> 0 \<and>
   rsi_disable_ps header0 send_fail (world0 3) =
     \<lparr>adapter = \<lparr>ps_state = 3, hw = ()\<rparr>,
      trace = [PS_REQUEST False,
               DBG ERR_ZONE ''%s: Failed to send PS request to device\<newline>''
                 [Str ''rsi_disable_ps'']]\<rparr>"
proof -
  note fails = ps_request_failure_keeps_state [OF preserves_send_fail]
  have en: "adapter (rsi_enable_ps header0 send_fail (world0 0)) = \<lparr>ps_state = 0, hw = ()\<rparr> \<and>
     trace (rsi_enable_ps header0 send_fail (world0 0)) =
       [PS_REQUEST True,
        DBG ERR_ZONE ''%s: Failed to send PS request to device\<newline>''
          [Str ''rsi_enable_ps'']]"
    using fails [of "world0 0" header0]
    by (simp add: world0_def header0_def send_fail_def)
  have dis: "adapter (rsi_disable_ps header0 send_fail (world0 3)) = \<lparr>ps_state = 3, hw = ()\<rparr> \<and>
     trace (rsi_disable_ps header0 send_fail (world0 3)) =
       [PS_REQUEST False,
        DBG ERR_ZONE ''%s: Failed to send PS request to device\<newline>''
          [Str ''rsi_disable_ps'']]"
    using fails [of "world0 3" header0]
    by (simp add: world0_def header0_def send_fail_def)
  have eq: "w = \<lparr>adapter = a, trace = t\<rparr>" if "adapter w = a \<and> trace w = t"
    for w :: "unit world" and a t
    using that by (cases w) simp
  show ?thesis
    using preserves_send_fail eq [OF en] eq [OF dis]
    by (simp add: world0_def header0_def send_fail_def)
qed

text \<open>
  C8. From \<open>PS_NONE\<close>, with a transport that returns 0 to the first request, a second
  \<open>rsi_enable_ps\<close> right after the first is refused: it adds the error-zone entry that
  names the state \<open>PS_ENABLE_REQ_SENT\<close> and nothing else, and the state after both
  calls is \<open>PS_ENABLE_REQ_SENT\<close>.
\<close>

theorem rsi_enable_ps_twice:
  assumes "header_ok h"
    and "ps_state (adapter w) = PS_NONE h"
    and "fst (send True (adapter w)) = 0"
    and "w' = rsi_enable_ps h send w"
  shows "rsi_enable_ps h send w' =
           w'\<lparr>trace := trace w' @
               [DBG ERR_ZONE ''%s: Cannot accept enable PS in %s state\<newline>''
                  [Str ''rsi_enable_ps'', Str ''PS_ENABLE_REQ_SENT'']]\<rparr> \<and>
         ps_state (adapter w') = PS_ENABLE_REQ_SENT h \<and>
         ps_state (adapter (rsi_enable_ps h send w')) = PS_ENABLE_REQ_SENT h \<and>
         ps_requests (trace (rsi_enable_ps h send w')) = ps_requests (trace w) @ [True]"
proof -
  have first: "ps_state (adapter w') = PS_ENABLE_REQ_SENT h"
    and sent: "ps_requests (trace w') = ps_requests (trace w) @ [True]"
    using assms(2,3,4)
    by (simp_all add: rsi_enable_ps_def rsi_send_ps_request_eq
        ps_state_rsi_modify_ps_state ps_requests_rsi_modify_ps_state ps_requests_append)
  have "PS_ENABLE_REQ_SENT h \<noteq> PS_NONE h"
    using assms(1) by (auto simp: header_ok_def)
  with first have refused: "ps_state (adapter w') \<noteq> PS_NONE h"
    by simp
  have "rsi_enable_ps h send w' =
          w'\<lparr>trace := trace w' @
              [DBG ERR_ZONE ''%s: Cannot accept enable PS in %s state\<newline>''
                 [Str ''rsi_enable_ps'', Str ''PS_ENABLE_REQ_SENT'']]\<rparr>"
    using refused first str_psstate_enumerators(3) [OF assms(1)]
    by (simp add: rsi_enable_ps_def ven_rsi_dbg_def)
  then show ?thesis
    using first sent by (simp add: ps_requests_append)
qed

theorem rsi_enable_ps_twice_witness:
  "header_ok header0 \<and>
   ps_state (adapter (world0 0)) = PS_NONE header0 \<and>
   fst (send_ok True (adapter (world0 0))) = 0 \<and>
   rsi_enable_ps header0 send_ok (rsi_enable_ps header0 send_ok (world0 0)) =
     \<lparr>adapter = \<lparr>ps_state = 1, hw = ()\<rparr>,
      trace = [PS_REQUEST True,
               DBG INFO_ZONE ''PS state changed %s => %s\<newline>''
                 [Str ''PS_NONE'', Str ''PS_ENABLE_REQ_SENT''],
               DBG ERR_ZONE ''%s: Cannot accept enable PS in %s state\<newline>''
                 [Str ''rsi_enable_ps'', Str ''PS_ENABLE_REQ_SENT'']]\<rparr>"
proof -
  have st: "ps_state (adapter (world0 0)) = PS_NONE header0"
    by (simp add: world0_def header0_def)
  have ok: "fst (send_ok True (adapter (world0 0))) = 0"
    by (simp add: send_ok_def)
  have first: "rsi_enable_ps header0 send_ok (world0 0) =
     \<lparr>adapter = \<lparr>ps_state = 1, hw = ()\<rparr>,
      trace = [PS_REQUEST True,
               DBG INFO_ZONE ''PS state changed %s => %s\<newline>''
                 [Str ''PS_NONE'', Str ''PS_ENABLE_REQ_SENT'']]\<rparr>"
    by (simp add: rsi_enable_ps_def rsi_send_ps_request_eq rsi_modify_ps_state_def
        ven_rsi_dbg_def str_psstate_def world0_def header0_def send_ok_def)
  show ?thesis
    using rsi_enable_ps_twice
        [where h = header0 and w = "world0 0" and send = send_ok
           and w' = "rsi_enable_ps header0 send_ok (world0 0)", OF header0_ok st ok refl]
      header0_ok st ok
    by (simp add: first)
qed

subsection \<open>UAPSD reconfiguration\<close>

text \<open>
  C7. In every state other than \<open>PS_ENABLED\<close>, \<open>rsi_conf_uapsd\<close> returns at once: the
  adapter and the trace are as before, so no request is sent, nothing is logged and the
  state is unchanged.
\<close>

theorem rsi_conf_uapsd_not_enabled:
  "ps_state (adapter w) \<noteq> PS_ENABLED h \<Longrightarrow> rsi_conf_uapsd h send w = w"
  by (simp add: rsi_conf_uapsd_def)

theorem rsi_conf_uapsd_not_enabled_witness:
  "ps_state (adapter (world0 0)) \<noteq> PS_ENABLED header0 \<and>
   rsi_conf_uapsd header0 send_ok (world0 0) = world0 0 \<and>
   ps_requests (trace (rsi_conf_uapsd header0 send_ok (world0 0))) = []"
  using rsi_conf_uapsd_not_enabled [of "world0 0" header0 send_ok]
  by (simp add: world0_def header0_def)

text \<open>
  C6. In the state \<open>PS_ENABLED\<close>, \<open>rsi_conf_uapsd\<close> hands the transport a request with the
  flag cleared; when that returns a non-zero status it is the only request, otherwise a
  request with the flag set follows, handed the adapter the first one left behind. The
  function never calls \<open>rsi_modify_ps_state\<close>: with a transport that does not write
  \<open>ps_state\<close>, the state after the call is the state before it, whatever the two
  statuses are.
\<close>

theorem rsi_conf_uapsd_enabled:
  assumes "preserves_ps_state send"
    and "ps_state (adapter w) = PS_ENABLED h"
  shows "ps_requests (trace (rsi_conf_uapsd h send w)) =
           ps_requests (trace w) @
             (if fst (send False (adapter w)) \<noteq> 0 then [False] else [False, True]) \<and>
         adapter (rsi_conf_uapsd h send w) =
           (if fst (send False (adapter w)) \<noteq> 0 then snd (send False (adapter w))
            else snd (send True (snd (send False (adapter w))))) \<and>
         ps_state (adapter (rsi_conf_uapsd h send w)) = ps_state (adapter w)"
  using assms
  by (simp add: preserves_ps_state_def rsi_conf_uapsd_def rsi_send_ps_request_eq
      ven_rsi_dbg_def ps_requests_append)

theorem rsi_conf_uapsd_enabled_witness:
  "preserves_ps_state send_ok \<and> preserves_ps_state send_fail \<and>
   ps_state (adapter (world0 3)) = PS_ENABLED header0 \<and>
   ps_requests (trace (rsi_conf_uapsd header0 send_ok (world0 3))) = [False, True] \<and>
   ps_state (adapter (rsi_conf_uapsd header0 send_ok (world0 3))) = 3 \<and>
   ps_requests (trace (rsi_conf_uapsd header0 send_fail (world0 3))) = [False] \<and>
   ps_state (adapter (rsi_conf_uapsd header0 send_fail (world0 3))) = 3"
proof -
  have st: "ps_state (adapter (world0 3)) = PS_ENABLED header0"
    by (simp add: world0_def header0_def)
  have "ps_requests (trace (rsi_conf_uapsd header0 send_ok (world0 3))) = [False, True] \<and>
     ps_state (adapter (rsi_conf_uapsd header0 send_ok (world0 3))) = 3"
    using rsi_conf_uapsd_enabled [OF preserves_send_ok st]
    by (simp add: world0_def send_ok_def)
  moreover
  have "ps_requests (trace (rsi_conf_uapsd header0 send_fail (world0 3))) = [False] \<and>
     ps_state (adapter (rsi_conf_uapsd header0 send_fail (world0 3))) = 3"
    using rsi_conf_uapsd_enabled [OF preserves_send_fail st]
    by (simp add: world0_def send_fail_def)
  ultimately show ?thesis
    using preserves_send_ok preserves_send_fail st by simp
qed

subsection \<open>The stored state\<close>

text \<open>
  C9. The only write to \<open>ps_state\<close> in the file is the one in \<open>rsi_modify_ps_state\<close>, and
  every call passes it an enumerator. So, with a transport that does not write
  \<open>ps_state\<close>, each of the four operations takes an adapter whose state is one of the
  four enumerators to an adapter whose state is one of the four enumerators, on the
  paths that succeed and on those that fail.
\<close>

theorem ps_state_stays_enumerator:
  assumes "preserves_ps_state send"
    and "ps_state (adapter w) \<in>
           {PS_NONE h, PS_ENABLE_REQ_SENT h, PS_ENABLED h, PS_DISABLE_REQ_SENT h}"
  shows "ps_state (adapter (rsi_enable_ps h send w)) \<in>
           {PS_NONE h, PS_ENABLE_REQ_SENT h, PS_ENABLED h, PS_DISABLE_REQ_SENT h} \<and>
         ps_state (adapter (rsi_disable_ps h send w)) \<in>
           {PS_NONE h, PS_ENABLE_REQ_SENT h, PS_ENABLED h, PS_DISABLE_REQ_SENT h} \<and>
         ps_state (adapter (rsi_conf_uapsd h send w)) \<in>
           {PS_NONE h, PS_ENABLE_REQ_SENT h, PS_ENABLED h, PS_DISABLE_REQ_SENT h} \<and>
         ps_state (adapter (snd (rsi_handle_ps_confirm h msg w))) \<in>
           {PS_NONE h, PS_ENABLE_REQ_SENT h, PS_ENABLED h, PS_DISABLE_REQ_SENT h}"
proof -
  have kept: "ps_state (snd (send enable a)) = ps_state a" for enable a
    using assms(1) by (simp add: preserves_ps_state_def)
  have enable: "ps_state (adapter (rsi_enable_ps h send w)) \<in>
      {ps_state (adapter w), PS_ENABLE_REQ_SENT h}"
    by (simp add: rsi_enable_ps_def rsi_send_ps_request_eq ven_rsi_dbg_def kept
        ps_state_rsi_modify_ps_state)
  have disable: "ps_state (adapter (rsi_disable_ps h send w)) \<in>
      {ps_state (adapter w), PS_DISABLE_REQ_SENT h}"
    by (simp add: rsi_disable_ps_def rsi_send_ps_request_eq ven_rsi_dbg_def kept
        ps_state_rsi_modify_ps_state)
  have conf: "ps_state (adapter (rsi_conf_uapsd h send w)) = ps_state (adapter w)"
    by (simp add: rsi_conf_uapsd_def rsi_send_ps_request_eq ven_rsi_dbg_def kept)
  have confirm: "ps_state (adapter (snd (rsi_handle_ps_confirm h msg w))) \<in>
      {ps_state (adapter w), PS_ENABLED h, PS_NONE h}"
    by (simp add: rsi_handle_ps_confirm_def Let_def ven_rsi_dbg_def
        ps_state_rsi_modify_ps_state)
  show ?thesis
    using assms(2) enable disable conf confirm by auto
qed

theorem ps_state_stays_enumerator_witness:
  "preserves_ps_state send_ok \<and>
   ps_state (adapter (world0 0)) \<in>
     {PS_NONE header0, PS_ENABLE_REQ_SENT header0, PS_ENABLED header0,
      PS_DISABLE_REQ_SENT header0} \<and>
   ps_state (adapter (rsi_enable_ps header0 send_ok (world0 0))) \<in>
     {PS_NONE header0, PS_ENABLE_REQ_SENT header0, PS_ENABLED header0,
      PS_DISABLE_REQ_SENT header0} \<and>
   ps_state (adapter (rsi_disable_ps header0 send_ok (world0 0))) \<in>
     {PS_NONE header0, PS_ENABLE_REQ_SENT header0, PS_ENABLED header0,
      PS_DISABLE_REQ_SENT header0} \<and>
   ps_state (adapter (rsi_conf_uapsd header0 send_ok (world0 0))) \<in>
     {PS_NONE header0, PS_ENABLE_REQ_SENT header0, PS_ENABLED header0,
      PS_DISABLE_REQ_SENT header0} \<and>
   ps_state (adapter (snd (rsi_handle_ps_confirm header0 (msg0 1 0) (world0 0)))) \<in>
     {PS_NONE header0, PS_ENABLE_REQ_SENT header0, PS_ENABLED header0,
      PS_DISABLE_REQ_SENT header0}"
proof -
  have st: "ps_state (adapter (world0 0)) \<in>
      {PS_NONE header0, PS_ENABLE_REQ_SENT header0, PS_ENABLED header0,
       PS_DISABLE_REQ_SENT header0}"
    by (simp add: world0_def header0_def)
  from preserves_send_ok st
    ps_state_stays_enumerator [OF preserves_send_ok st, of "msg0 1 0"]
  show ?thesis by blast
qed

end
